theory Spec2Isabelle
  imports Main "HOL-Library.Word"
begin

section \<open>Values and documents\<close>

text \<open>
  A document is a Python \<open>dict\<close> with string keys, modelled as a map. The values are those
  that the models of \<open>main.py\<close> (\<open>ProjectIn\<close>, \<open>ContactIn\<close>) and the document store put into
  a document: \<open>None\<close>, integers in the store's signed 64-bit range (and the default \<open>0\<close> of
  \<open>d.get("year", 0)\<close>), strings, lists of strings (\<open>tags\<close>), \<open>datetime\<close> objects and the
  store's 12-byte \<open>ObjectId\<close>. Strings are lists of 8-bit characters, read as code points
  below 256.
\<close>

record datetime =
  dt_year :: nat
  dt_month :: nat
  dt_day :: nat
  dt_hour :: nat
  dt_minute :: nat
  dt_second :: nat
  dt_microsecond :: nat
  dt_utcoffset :: "int option"  \<comment> \<open>minutes east of UTC; \<open>None\<close> for a naive datetime\<close>

datatype pyval =
    PNone
  | PInt "64 word"
  | PStr string
  | PList "string list"
  | PDatetime datetime
  | PObjectId "96 word"

type_synonym doc = "string \<rightharpoonup> pyval"

datatype error = TypeError | ValueError | InvalidId | GatewayError | RequestValidationError

subsection \<open>\<open>str\<close>, \<open>repr\<close> and \<open>isoformat\<close>\<close>

definition digit_char :: "nat \<Rightarrow> char" where
  "digit_char n = ''0123456789abcdef'' ! (n mod 16)"

fun dec :: "nat \<Rightarrow> string" where
  "dec n = (if n < 10 then [digit_char n] else dec (n div 10) @ [digit_char (n mod 10)])"

declare dec.simps [simp del]

definition zpad :: "nat \<Rightarrow> nat \<Rightarrow> string" where
  "zpad w n = replicate (w - length (dec n)) (CHR ''0'') @ dec n"

definition str_int :: "int \<Rightarrow> string" where
  "str_int i = (if i < 0 then ''-'' @ dec (nat (- i)) else dec (nat i))"

definition format_offset :: "int \<Rightarrow> string" where
  "format_offset m =
     (let a = nat \<bar>m\<bar>
      in (if m < 0 then ''-'' else ''+'') @ zpad 2 (a div 60) @ '':'' @ zpad 2 (a mod 60))"

definition isoformat_sep :: "char \<Rightarrow> datetime \<Rightarrow> string" where
  "isoformat_sep sep t =
     zpad 4 (dt_year t) @ ''-'' @ zpad 2 (dt_month t) @ ''-'' @ zpad 2 (dt_day t) @ [sep]
     @ zpad 2 (dt_hour t) @ '':'' @ zpad 2 (dt_minute t) @ '':'' @ zpad 2 (dt_second t)
     @ (if dt_microsecond t = 0 then [] else ''.'' @ zpad 6 (dt_microsecond t))
     @ (case dt_utcoffset t of None \<Rightarrow> [] | Some m \<Rightarrow> format_offset m)"

definition isoformat :: "datetime \<Rightarrow> string" where
  "isoformat t = isoformat_sep (CHR ''T'') t"

fun hexdigits :: "nat \<Rightarrow> nat \<Rightarrow> string" where
  "hexdigits 0 n = []"
| "hexdigits (Suc k) n = hexdigits k (n div 16) @ [digit_char (n mod 16)]"

definition str_oid :: "96 word \<Rightarrow> string" where
  "str_oid w = hexdigits 24 (unat w)"

definition repr_char :: "char \<Rightarrow> char \<Rightarrow> string" where
  "repr_char q c =
     (let n = (of_char c :: nat)
      in if c = q \<or> n = 0x5C then [CHR 0x5C, c]
         else if n = 0x09 then [CHR 0x5C, CHR ''t'']
         else if n = 0x0A then [CHR 0x5C, CHR ''n'']
         else if n = 0x0D then [CHR 0x5C, CHR ''r'']
         else if n < 0x20 \<or> (0x7F \<le> n \<and> n \<le> 0xA0) \<or> n = 0xAD
           then [CHR 0x5C, CHR ''x'', digit_char (n div 16), digit_char (n mod 16)]
         else [c])"

definition repr_str :: "string \<Rightarrow> string" where
  "repr_str s =
     (let q = (if CHR 0x27 \<in> set s \<and> CHR 0x22 \<notin> set s then CHR 0x22 else CHR 0x27)
      in [q] @ concat (map (repr_char q) s) @ [q])"

fun join_comma :: "string list \<Rightarrow> string" where
  "join_comma [] = []"
| "join_comma [x] = x"
| "join_comma (x # y # ys) = x @ '', '' @ join_comma (y # ys)"

fun py_str :: "pyval \<Rightarrow> string" where
  "py_str PNone = ''None''"
| "py_str (PInt i) = str_int (sint i)"
| "py_str (PStr s) = s"
| "py_str (PList xs) = ''['' @ join_comma (map repr_str xs) @ '']''"
| "py_str (PDatetime t) = isoformat_sep (CHR '' '') t"
| "py_str (PObjectId w) = str_oid w"

subsection \<open>\<open>int\<close>\<close>

text \<open>
  The whitespace that \<open>int\<close> strips from a string: the ASCII whitespace \<open>0x09\<close> to \<open>0x0D\<close> and
  \<open>0x20\<close>, and the two whitespace code points above ASCII and below 256, \<open>0x85\<close> and
  \<open>0xA0\<close>. The separators \<open>0x1C\<close> to \<open>0x1F\<close> are not stripped, although \<open>str.isspace\<close>
  accepts them.
\<close>

definition is_space :: "char \<Rightarrow> bool" where
  "is_space c =
     (let n = (of_char c :: nat)
      in (0x09 \<le> n \<and> n \<le> 0x0D) \<or> n = 0x20 \<or> n = 0x85 \<or> n = 0xA0)"

definition is_digit :: "char \<Rightarrow> bool" where
  "is_digit c = (let n = (of_char c :: nat) in 0x30 \<le> n \<and> n \<le> 0x39)"

definition digit_val :: "char \<Rightarrow> nat" where
  "digit_val c = of_char c - 0x30"

definition strip :: "string \<Rightarrow> string" where
  "strip s = rev (dropWhile is_space (rev (dropWhile is_space s)))"

text \<open>
  The digits of a decimal literal: single underscores are allowed between digits only.
  A literal of more than 4300 digits is refused (the default of
  \<open>sys.int_info.default_max_str_digits\<close>).
\<close>

definition max_str_digits :: nat where
  "max_str_digits = 4300"

fun int_digits :: "nat \<Rightarrow> string \<Rightarrow> nat option" where
  "int_digits acc [] = Some acc"
| "int_digits acc (c # cs) =
     (if is_digit c then int_digits (acc * 10 + digit_val c) cs
      else if c = CHR ''_'' then
        (case cs of
           [] \<Rightarrow> None
         | d # _ \<Rightarrow> if is_digit d then int_digits acc cs else None)
      else None)"

definition int_of_str :: "string \<Rightarrow> error + int" where
  "int_of_str s =
     (let t = strip s;
          neg = (case t of [] \<Rightarrow> False | c # _ \<Rightarrow> c = CHR ''-'');
          u = (case t of [] \<Rightarrow> [] | c # r \<Rightarrow> if c = CHR ''-'' \<or> c = CHR ''+'' then r else t)
      in case u of
           [] \<Rightarrow> Inl ValueError
         | c # _ \<Rightarrow>
             if is_digit c then
               (case int_digits 0 u of
                  None \<Rightarrow> Inl ValueError
                | Some n \<Rightarrow>
                    if length (filter is_digit u) > max_str_digits then Inl ValueError
                    else Inr (if neg then - int n else int n))
             else Inl ValueError)"

text \<open>
  \<open>int(v)\<close>: an integer is returned as it is, a string is parsed in base 10 and raises
  \<open>ValueError\<close> when it is no literal or is too long, and the other values raise
  \<open>TypeError\<close>.
\<close>

fun py_int :: "pyval \<Rightarrow> error + int" where
  "py_int (PInt i) = Inr (sint i)"
| "py_int (PStr s) = int_of_str s"
| "py_int PNone = Inl TypeError"
| "py_int (PList xs) = Inl TypeError"
| "py_int (PDatetime t) = Inl TypeError"
| "py_int (PObjectId w) = Inl TypeError"

section \<open>The serializer\<close>

text \<open>
  \<open>d.get("_id")\<close> is \<open>None\<close> both when the key is absent and when it is bound to \<open>None\<close>.
  Only \<open>datetime\<close> values have an \<open>isoformat\<close> attribute.
\<close>

definition iso_field :: "string \<Rightarrow> doc \<Rightarrow> doc" where
  "iso_field k d =
     (case d k of
        Some (PDatetime t) \<Rightarrow> d(k \<mapsto> PStr (isoformat t))
      | _ \<Rightarrow> d)"

definition serialize_doc :: "doc \<Rightarrow> doc" where
  "serialize_doc doc =
     (let d = (case doc ''_id'' of
                 None \<Rightarrow> doc
               | Some v \<Rightarrow>
                   if v \<noteq> PNone then (doc(''_id'' := None))(''id'' \<mapsto> PStr (py_str v))
                   else doc)
      in fold iso_field [''created_at'', ''updated_at''] d)"

definition serialize_doc_opt :: "doc option \<Rightarrow> error + doc" where
  \<comment> \<open>\<open>serialize_doc(None)\<close>: \<open>dict(None)\<close> raises \<open>TypeError\<close>\<close>
  "serialize_doc_opt x = (case x of None \<Rightarrow> Inl TypeError | Some d \<Rightarrow> Inr (serialize_doc d))"

section \<open>Sorting by year\<close>

text \<open>
  \<open>docs.sort(key=lambda d: int(d.get("year", 0)), reverse=True)\<close> inside \<open>try\<close>. The sort
  computes the key of every element first; an exception there leaves the list as it was.
  With all keys computed it reverses the list, sorts it stably in ascending key order and
  reverses the result, which is a stable sort in descending key order.
\<close>

definition year_key :: "doc \<Rightarrow> error + int" where
  "year_key d = py_int (case d ''year'' of None \<Rightarrow> PInt 0 | Some v \<Rightarrow> v)"

fun keys_of :: "('a \<Rightarrow> error + int) \<Rightarrow> 'a list \<Rightarrow> error + int list" where
  "keys_of key [] = Inr []"
| "keys_of key (x # xs) =
     (case key x of
        Inl e \<Rightarrow> Inl e
      | Inr k \<Rightarrow> (case keys_of key xs of Inl e \<Rightarrow> Inl e | Inr ks \<Rightarrow> Inr (k # ks)))"

definition sort_key_reverse :: "('a \<Rightarrow> error + int) \<Rightarrow> 'a list \<Rightarrow> error + 'a list" where
  "sort_key_reverse key xs =
     (case keys_of key xs of
        Inl e \<Rightarrow> Inl e
      | Inr ks \<Rightarrow> Inr (map snd (rev (sort_key fst (rev (zip ks xs))))))"

definition sort_by_year :: "doc list \<Rightarrow> doc list" where
  "sort_by_year docs =
     (case sort_key_reverse year_key docs of Inl e \<Rightarrow> docs | Inr sorted_docs \<Rightarrow> sorted_docs)"

section \<open>The store, the clock and the identifier supply\<close>

text \<open>
  The global \<open>db\<close> is \<open>None\<close> or a handle on the collections, each a list of documents in
  retrieval order. \<open>clock\<close> gives the successive readings of \<open>datetime.now\<close> and \<open>oids\<close> the
  successive identifiers the driver generates; both are consumed in order. Every call on a
  collection is recorded in \<open>store_calls\<close>. The store keeps the documents it is given;
  identifier collisions and the store's own encoding of values are outside the model.
\<close>

datatype store_call =
    CountDocuments string
  | InsertMany string nat
  | InsertOne string
  | FindOne string
  | Find string

record world =
  db :: "(string \<Rightarrow> doc list) option"
  clock :: "nat \<Rightarrow> datetime"
  clock_reads :: nat
  oids :: "nat \<Rightarrow> 96 word"
  oids_issued :: nat
  store_calls :: "store_call list"

definition utcnow :: "world \<Rightarrow> datetime \<times> world" where
  \<comment> \<open>\<open>datetime.now(timezone.utc)\<close>: the next reading, as an aware UTC datetime\<close>
  "utcnow w =
     ((clock w (clock_reads w))\<lparr>dt_utcoffset := Some 0\<rparr>, w\<lparr>clock_reads := Suc (clock_reads w)\<rparr>)"

definition new_oid :: "world \<Rightarrow> 96 word \<times> world" where
  "new_oid w = (oids w (oids_issued w), w\<lparr>oids_issued := Suc (oids_issued w)\<rparr>)"

definition log_call :: "store_call \<Rightarrow> world \<Rightarrow> world" where
  "log_call c w = w\<lparr>store_calls := store_calls w @ [c]\<rparr>"

definition count_documents :: "string \<Rightarrow> world \<Rightarrow> error + (nat \<times> world)" where
  \<comment> \<open>\<open>db[c].count_documents({})\<close>; subscripting \<open>None\<close> raises \<open>TypeError\<close>\<close>
  "count_documents c w =
     (case db w of
        None \<Rightarrow> Inl TypeError
      | Some s \<Rightarrow> Inr (length (s c), log_call (CountDocuments c) w))"

fun assign_ids :: "doc list \<Rightarrow> world \<Rightarrow> doc list \<times> world" where
  "assign_ids [] w = ([], w)"
| "assign_ids (d # ds) w =
     (case d ''_id'' of
        Some v \<Rightarrow> (let (ds', w') = assign_ids ds w in (d # ds', w'))
      | None \<Rightarrow>
          (let (i, w1) = new_oid w;
               (ds', w2) = assign_ids ds w1
           in (d(''_id'' \<mapsto> PObjectId i) # ds', w2)))"

definition insert_many :: "string \<Rightarrow> doc list \<Rightarrow> world \<Rightarrow> error + world" where
  \<comment> \<open>\<open>db[c].insert_many(docs)\<close>: documents without \<open>_id\<close> get a fresh identifier\<close>
  "insert_many c docs w =
     (case db w of
        None \<Rightarrow> Inl TypeError
      | Some s \<Rightarrow>
          if docs = [] then Inl TypeError
          else (let (docs', w1) = assign_ids docs w
                in Inr (log_call (InsertMany c (length docs))
                          (w1\<lparr>db := Some (s(c := s c @ docs'))\<rparr>))))"

definition find_one :: "string \<Rightarrow> pyval \<Rightarrow> world \<Rightarrow> error + (doc option \<times> world)" where
  \<comment> \<open>\<open>db[c].find_one({"_id": v})\<close>: the first document with that identifier, or \<open>None\<close>\<close>
  "find_one c v w =
     (case db w of
        None \<Rightarrow> Inl TypeError
      | Some s \<Rightarrow> Inr (find (\<lambda>d. d ''_id'' = Some v) (s c), log_call (FindOne c) w))"

definition hexval :: "char \<Rightarrow> nat option" where
  "hexval c =
     (let n = (of_char c :: nat)
      in if 0x30 \<le> n \<and> n \<le> 0x39 then Some (n - 0x30)
         else if 0x61 \<le> n \<and> n \<le> 0x66 then Some (n - 0x57)
         else if 0x41 \<le> n \<and> n \<le> 0x46 then Some (n - 0x37)
         else None)"

definition oid_of_hex :: "string \<Rightarrow> error + 96 word" where
  "oid_of_hex s =
     (if length s = 24 then
        (case those (map hexval s) of
           None \<Rightarrow> Inl InvalidId
         | Some ds \<Rightarrow> Inr (of_nat (foldl (\<lambda>a d. a * 16 + d) 0 ds)))
      else Inl InvalidId)"

fun ObjectId :: "pyval \<Rightarrow> world \<Rightarrow> error + (96 word \<times> world)" where
  "ObjectId PNone w = Inr (new_oid w)"
| "ObjectId (PObjectId i) w = Inr (i, w)"
| "ObjectId (PStr s) w = (case oid_of_hex s of Inl e \<Rightarrow> Inl e | Inr i \<Rightarrow> Inr (i, w))"
| "ObjectId (PInt n) w = Inl TypeError"
| "ObjectId (PList xs) w = Inl TypeError"
| "ObjectId (PDatetime t) w = Inl TypeError"

section \<open>Seeding\<close>

definition seed :: "doc list" where
  "seed =
     [[''title'' \<mapsto> PStr ''Casa Horizonte'',
       ''image'' \<mapsto> PStr ''https://images.unsplash.com/photo-1494526585095-c41746248156?q=80&w=1600&auto=format&fit=crop'',
       ''location'' \<mapsto> PStr ''Monterey, CA'',
       ''year'' \<mapsto> PStr ''2023'',
       ''tags'' \<mapsto> PList [''Residential'', ''Coastal''],
       ''description'' \<mapsto> PStr ''A cliffside residence framing expansive Pacific views through disciplined apertures and warm concrete.''],
      [''title'' \<mapsto> PStr ''Gallery of Light'',
       ''image'' \<mapsto> PStr ''https://images.unsplash.com/photo-1487956382158-bb926046304a?q=80&w=1600&auto=format&fit=crop'',
       ''location'' \<mapsto> PStr ''Santa Fe, NM'',
       ''year'' \<mapsto> PStr ''2022'',
       ''tags'' \<mapsto> PList [''Cultural''],
       ''description'' \<mapsto> PStr ''Adaptive reuse gallery washed in high desert light with calibrated roof lanterns.''],
      [''title'' \<mapsto> PStr ''Courtyard House'',
       ''image'' \<mapsto> PStr ''https://images.unsplash.com/photo-1487958449943-2429e8be8625?q=80&w=1600&auto=format&fit=crop'',
       ''location'' \<mapsto> PStr ''Austin, TX'',
       ''year'' \<mapsto> PStr ''2021'',
       ''tags'' \<mapsto> PList [''Residential'', ''Courtyard''],
       ''description'' \<mapsto> PStr ''A quiet inward-facing plan organized around a planted court and deep overhangs.''],
      [''title'' \<mapsto> PStr ''Cliffside Studio'',
       ''image'' \<mapsto> PStr ''https://images.unsplash.com/photo-1502005229762-cf1b2da7c3f5?q=80&w=1600&auto=format&fit=crop'',
       ''location'' \<mapsto> PStr ''Big Sur, CA'',
       ''year'' \<mapsto> PStr ''2020'',
       ''tags'' \<mapsto> PList [''Studio''],
       ''description'' \<mapsto> PStr ''A minimal artist studio perched on a rocky outcrop, tuned to the horizon.'']]"

text \<open>The loop \<open>for s in seed\<close>: two readings of the clock for each record.\<close>

fun stamp_seed :: "doc list \<Rightarrow> world \<Rightarrow> doc list \<times> world" where
  "stamp_seed [] w = ([], w)"
| "stamp_seed (s # ss) w =
     (let (t1, w1) = utcnow w;
          s1 = s(''created_at'' \<mapsto> PDatetime t1);
          (t2, w2) = utcnow w1;
          s2 = s1(''updated_at'' \<mapsto> PDatetime t2);
          (ss', w3) = stamp_seed ss w2
      in (s2 # ss', w3))"

definition ensure_seed_projects :: "world \<Rightarrow> error + world" where
  "ensure_seed_projects w =
     (case db w of
        None \<Rightarrow> Inr w
      | Some _ \<Rightarrow>
          (case count_documents ''projects'' w of
             Inl e \<Rightarrow> Inl e
           | Inr (count, w1) \<Rightarrow>
               if count = 0 then
                 (let (stamped, w2) = stamp_seed seed w1
                  in insert_many ''projects'' stamped w2)
               else Inr w1))"

section \<open>Routes\<close>

text \<open>
  \<open>create_document\<close> and \<open>get_documents\<close> come from the module \<open>database\<close>, which is not part
  of \<open>main.py\<close>; the routes take them as parameters.
\<close>

type_synonym create_document_fn = "string \<Rightarrow> doc \<Rightarrow> world \<Rightarrow> error + (pyval \<times> world)"
type_synonym get_documents_fn = "string \<Rightarrow> world \<Rightarrow> error + (doc list \<times> world)"

definition list_projects :: "get_documents_fn \<Rightarrow> world \<Rightarrow> error + (doc list \<times> world)" where
  "list_projects get_documents w =
     (case ensure_seed_projects w of
        Inl e \<Rightarrow> Inl e
      | Inr w1 \<Rightarrow>
          (case get_documents ''projects'' w1 of
             Inl e \<Rightarrow> Inl e
           | Inr (docs, w2) \<Rightarrow> Inr (map serialize_doc (sort_by_year docs), w2)))"

text \<open>
  \<open>db[c].find_one({"_id": ObjectId(inserted_id)})\<close> followed by \<open>serialize_doc\<close>: the
  subscript on \<open>db\<close> is evaluated before the argument.
\<close>

definition find_created :: "string \<Rightarrow> pyval \<Rightarrow> world \<Rightarrow> error + (doc \<times> world)" where
  "find_created c inserted_id w =
     (case db w of
        None \<Rightarrow> Inl TypeError
      | Some _ \<Rightarrow>
          (case ObjectId inserted_id w of
             Inl e \<Rightarrow> Inl e
           | Inr (i, w1) \<Rightarrow>
               (case find_one c (PObjectId i) w1 of
                  Inl e \<Rightarrow> Inl e
                | Inr (created, w2) \<Rightarrow>
                    (case serialize_doc_opt created of
                       Inl e \<Rightarrow> Inl e
                     | Inr r \<Rightarrow> Inr (r, w2)))))"

definition create_project :: "create_document_fn \<Rightarrow> doc \<Rightarrow> world \<Rightarrow> error + (doc \<times> world)" where
  "create_project create_document project w =
     (case create_document ''projects'' project w of
        Inl e \<Rightarrow> Inl e
      | Inr (inserted_id, w1) \<Rightarrow> find_created ''projects'' inserted_id w1)"

definition submit_contact :: "create_document_fn \<Rightarrow> doc \<Rightarrow> world \<Rightarrow> error + (doc \<times> world)" where
  "submit_contact create_document data w =
     (case create_document ''contacts'' data w of
        Inl e \<Rightarrow> Inl e
      | Inr (inserted_id, w1) \<Rightarrow> find_created ''contacts'' inserted_id w1)"

text \<open>
  The status of the response to a \<open>POST\<close> route declared with \<open>status_code=201\<close>: a body
  that fails validation is rejected with 422 before the route runs, and any other exception
  that leaves the route is answered with 500.
\<close>

definition post_status :: "error + 'a \<Rightarrow> nat" where
  "post_status r =
     (case r of
        Inr _ \<Rightarrow> 201
      | Inl e \<Rightarrow> if e = RequestValidationError then 422 else 500)"

section \<open>The gateway\<close>

definition create_document_spec :: create_document_fn where
  \<comment> \<open>Modelled from the spec: \<open>create_document\<close> of the module \<open>database\<close>, which is not in
      \<open>main.py\<close>. It stamps \<open>created_at\<close> and \<open>updated_at\<close> with one reading of the clock,
      inserts the document and returns the identifier the store assigned. The spec does
      not say what it does without a store; here it raises.\<close>
  "create_document_spec c data w =
     (case db w of
        None \<Rightarrow> Inl GatewayError
      | Some s \<Rightarrow>
          (let (t, w1) = utcnow w;
               d = data(''created_at'' \<mapsto> PDatetime t, ''updated_at'' \<mapsto> PDatetime t);
               (i, w2) = new_oid w1
           in Inr (PObjectId i,
                   log_call (InsertOne c)
                     (w2\<lparr>db := Some (s(c := s c @ [d(''_id'' \<mapsto> PObjectId i)]))\<rparr>))))"

definition get_documents_spec :: get_documents_fn where
  \<comment> \<open>Modelled from the spec: \<open>get_documents\<close> of the module \<open>database\<close>, which is not in
      \<open>main.py\<close>. It fetches all documents of the collection, with no filter and no limit,
      and yields the empty sequence when the store is unreachable.\<close>
  "get_documents_spec c w =
     (case db w of
        None \<Rightarrow> Inr ([], w)
      | Some s \<Rightarrow> Inr (s c, log_call (Find c) w))"

section \<open>Auxiliary notions for the statements\<close>

definition iso_val :: "pyval option \<Rightarrow> pyval option" where
  \<comment> \<open>what the serializer makes of the entry of a timestamp key\<close>
  "iso_val x = (case x of Some (PDatetime t) \<Rightarrow> Some (PStr (isoformat t)) | _ \<Rightarrow> x)"

definition reading :: "(nat \<Rightarrow> datetime) \<Rightarrow> nat \<Rightarrow> datetime" where
  \<comment> \<open>the \<open>n\<close>-th reading of the clock, as \<open>datetime.now(timezone.utc)\<close> returns it\<close>
  "reading clk n = (clk n)\<lparr>dt_utcoffset := Some 0\<rparr>"

fun stamped_at :: "(nat \<Rightarrow> datetime) \<Rightarrow> nat \<Rightarrow> doc list \<Rightarrow> doc list" where
  "stamped_at clk r [] = []"
| "stamped_at clk r (s # ss) =
     s(''created_at'' \<mapsto> PDatetime (reading clk r),
       ''updated_at'' \<mapsto> PDatetime (reading clk (Suc r)))
     # stamped_at clk (Suc (Suc r)) ss"

fun with_ids :: "(nat \<Rightarrow> 96 word) \<Rightarrow> nat \<Rightarrow> doc list \<Rightarrow> doc list" where
  "with_ids gen n [] = []"
| "with_ids gen n (d # ds) = d(''_id'' \<mapsto> PObjectId (gen n)) # with_ids gen (Suc n) ds"

definition bare :: "doc \<Rightarrow> doc" where
  \<comment> \<open>a stored document without its identifier and timestamps\<close>
  "bare d = d |` (- {''_id'', ''created_at'', ''updated_at''})"

definition seeded :: "world \<Rightarrow> (string \<Rightarrow> doc list) \<Rightarrow> world" where
  \<comment> \<open>the world after seeding the empty collection of the store \<open>s\<close>\<close>
  "seeded w s =
     w\<lparr>db := Some (s(''projects'' :=
                     s ''projects''
                     @ with_ids (oids w) (oids_issued w) (stamped_at (clock w) (clock_reads w) seed))),
       clock_reads := clock_reads w + 8,
       oids_issued := oids_issued w + 4,
       store_calls := store_calls w @ [CountDocuments ''projects'', InsertMany ''projects'' 4]\<rparr>"

definition projects_of :: "world \<Rightarrow> doc list" where
  \<comment> \<open>the documents of the collection \<open>projects\<close>; none without a store\<close>
  "projects_of w = (case db w of None \<Rightarrow> [] | Some s \<Rightarrow> s ''projects'')"

text \<open>Concrete worlds for the examples: a clock that advances by one second at each reading.\<close>

definition example_clock :: "nat \<Rightarrow> datetime" where
  "example_clock n =
     \<lparr>dt_year = 2024, dt_month = 5, dt_day = 1, dt_hour = 10, dt_minute = 0, dt_second = n,
      dt_microsecond = 0, dt_utcoffset = Some 0\<rparr>"

definition empty_store :: "string \<Rightarrow> doc list" where
  "empty_store c = []"

definition example_world :: world where
  "example_world =
     \<lparr>db = Some empty_store, clock = example_clock, clock_reads = 0,
      oids = of_nat, oids_issued = 0, store_calls = []\<rparr>"

definition offline_world :: world where
  "offline_world = example_world\<lparr>db := None\<rparr>"

definition busy_store :: "string \<Rightarrow> doc list" where
  "busy_store c = (if c = ''projects'' then [[''title'' \<mapsto> PStr ''Atrium'']] else [])"

definition busy_world :: world where
  "busy_world = example_world\<lparr>db := Some busy_store\<rparr>"

definition project_of_year :: "string \<Rightarrow> pyval \<Rightarrow> doc" where
  "project_of_year t y = [''title'' \<mapsto> PStr t, ''year'' \<mapsto> y]"

definition years_store :: "string \<Rightarrow> doc list" where
  "years_store c =
     (if c = ''projects''
      then [project_of_year ''A'' (PStr ''2020''), project_of_year ''B'' (PStr ''2023''),
            project_of_year ''C'' (PStr ''2021''), project_of_year ''D'' (PStr ''2022'')]
      else [])"

definition years_world :: world where
  "years_world = example_world\<lparr>db := Some years_store\<rparr>"

definition unparsed_store :: "string \<Rightarrow> doc list" where
  "unparsed_store c =
     (if c = ''projects''
      then [project_of_year ''A'' (PStr ''2020''), project_of_year ''B'' (PStr ''N/A''),
            project_of_year ''C'' (PStr ''2023''), project_of_year ''D'' (PStr ''2022'')]
      else [])"

definition unparsed_world :: world where
  "unparsed_world = example_world\<lparr>db := Some unparsed_store\<rparr>"

definition null_year_store :: "string \<Rightarrow> doc list" where
  "null_year_store c =
     (if c = ''projects''
      then [project_of_year ''A'' (PStr ''2020''), project_of_year ''B'' PNone,
            project_of_year ''C'' (PStr ''2023'')]
      else [])"

definition null_year_world :: world where
  "null_year_world = example_world\<lparr>db := Some null_year_store\<rparr>"

definition lost_create :: create_document_fn where
  \<comment> \<open>a gateway that reports an identifier and stores nothing\<close>
  "lost_create c data w = Inr (PObjectId 7, w)"

definition contact_store :: "string \<Rightarrow> doc list" where
  "contact_store c =
     (if c = ''contacts'' then [[''_id'' \<mapsto> PObjectId 5, ''name'' \<mapsto> PStr ''Bob'']] else [])"

definition contact_world :: world where
  "contact_world = example_world\<lparr>db := Some contact_store\<rparr>"

definition ada :: doc where
  "ada = [''name'' \<mapsto> PStr ''Ada'', ''email'' \<mapsto> PStr ''ada@example.com'',
          ''message'' \<mapsto> PStr ''hi'']"

definition years_store_year :: "doc \<Rightarrow> int" where
  \<comment> \<open>the integer that the year of a document of \<open>years_store\<close> denotes\<close>
  "years_store_year d =
     (if d ''year'' = Some (PStr ''2020'') then 2020
      else if d ''year'' = Some (PStr ''2021'') then 2021
      else if d ''year'' = Some (PStr ''2022'') then 2022
      else if d ''year'' = Some (PStr ''2023'') then 2023
      else 0)"

section \<open>Properties of the serializer\<close>

lemma iso_field_other: "k' \<noteq> k \<Longrightarrow> iso_field k d k' = d k'"
  by (simp add: iso_field_def split: option.splits pyval.splits)

lemma serialize_doc_id_key:
  "serialize_doc d ''id'' =
     (case d ''_id'' of
        None \<Rightarrow> d ''id''
      | Some v \<Rightarrow> if v \<noteq> PNone then Some (PStr (py_str v)) else d ''id'')"
  by (simp add: serialize_doc_def iso_field_other split: option.splits)

lemma serialize_doc_native_key:
  "serialize_doc d ''_id'' =
     (case d ''_id'' of
        None \<Rightarrow> None
      | Some v \<Rightarrow> if v \<noteq> PNone then None else Some PNone)"
  by (simp add: serialize_doc_def iso_field_other split: option.splits)

text \<open>
  Claim C9: when the key \<open>_id\<close> is present but bound to \<open>None\<close>, the serializer leaves the
  key in place with its \<open>None\<close> value and adds no \<open>id\<close> key (the entry for \<open>id\<close> is what it
  was in the input): the translation depends on the value being non-null.
\<close>

theorem serialize_doc_null_id:
  "d ''_id'' = Some PNone \<Longrightarrow>
     serialize_doc d ''_id'' = Some PNone \<and> serialize_doc d ''id'' = d ''id''"
  by (simp add: serialize_doc_id_key serialize_doc_native_key)

theorem serialize_doc_null_id_witness:
  "[''_id'' \<mapsto> PNone, ''title'' \<mapsto> PStr ''Casa''] ''_id'' = Some PNone
   \<and> serialize_doc [''_id'' \<mapsto> PNone, ''title'' \<mapsto> PStr ''Casa''] ''_id'' = Some PNone
   \<and> serialize_doc [''_id'' \<mapsto> PNone, ''title'' \<mapsto> PStr ''Casa''] ''id'' = None"
  using serialize_doc_null_id [of "[''_id'' \<mapsto> PNone, ''title'' \<mapsto> PStr ''Casa'']"]
  by simp

lemma iso_field_same: "iso_field k d k = iso_val (d k)"
  by (simp add: iso_field_def iso_val_def split: option.splits pyval.splits)

lemma serialize_doc_timestamp_key:
  "k = ''created_at'' \<or> k = ''updated_at'' \<Longrightarrow> serialize_doc d k = iso_val (d k)"
  by (auto simp: serialize_doc_def iso_field_other iso_field_same split: option.splits)

lemma serialize_doc_other_key:
  "k \<noteq> ''_id'' \<Longrightarrow> k \<noteq> ''id'' \<Longrightarrow> k \<noteq> ''created_at'' \<Longrightarrow> k \<noteq> ''updated_at'' \<Longrightarrow>
     serialize_doc d k = d k"
  by (simp add: serialize_doc_def iso_field_other split: option.splits)

lemma iso_val_idem: "iso_val (iso_val x) = iso_val x"
  by (simp add: iso_val_def split: option.splits pyval.splits)

lemma serialize_doc_idem: "serialize_doc (serialize_doc d) = serialize_doc d"
proof (rule ext)
  fix k
  consider (native) "k = ''_id''" | (public) "k = ''id''"
    | (stamp) "k = ''created_at'' \<or> k = ''updated_at''"
    | (other) "k \<noteq> ''_id''" "k \<noteq> ''id''" "k \<noteq> ''created_at''" "k \<noteq> ''updated_at''"
    by blast
  then show "serialize_doc (serialize_doc d) k = serialize_doc d k"
  proof cases
    case native
    then show ?thesis
      by (simp add: serialize_doc_native_key split: option.splits)
  next
    case public
    then show ?thesis
      by (simp add: serialize_doc_id_key serialize_doc_native_key split: option.splits)
  next
    case stamp
    then show ?thesis
      by (simp add: serialize_doc_timestamp_key iso_val_idem)
  next
    case other
    then show ?thesis
      by (simp add: serialize_doc_other_key)
  qed
qed

lemma serialize_doc_fixed:
  assumes "d ''_id'' = None"
    and "\<forall>k\<in>{''created_at'', ''updated_at''}. d k = None \<or> (\<exists>s. d k = Some (PStr s))"
  shows "serialize_doc d = d"
proof (rule ext)
  fix k
  consider (native) "k = ''_id''" | (public) "k = ''id''"
    | (stamp) "k = ''created_at'' \<or> k = ''updated_at''"
    | (other) "k \<noteq> ''_id''" "k \<noteq> ''id''" "k \<noteq> ''created_at''" "k \<noteq> ''updated_at''"
    by blast
  then show "serialize_doc d k = d k"
  proof cases
    case native
    then show ?thesis using assms(1) by (simp add: serialize_doc_native_key)
  next
    case public
    then show ?thesis using assms(1) by (simp add: serialize_doc_id_key)
  next
    case stamp
    then have "d k = None \<or> (\<exists>s. d k = Some (PStr s))"
      using assms(2) by auto
    then have "iso_val (d k) = d k"
      by (auto simp: iso_val_def)
    then show ?thesis using stamp by (simp add: serialize_doc_timestamp_key)
  next
    case other
    then show ?thesis by (simp add: serialize_doc_other_key)
  qed
qed

lemma hexdigits_numeral:
  "hexdigits (numeral k) n = hexdigits (pred_numeral k) (n div 16) @ [digit_char (n mod 16)]"
proof -
  have "hexdigits (Suc (pred_numeral k)) n = hexdigits (pred_numeral k) (n div 16) @ [digit_char (n mod 16)]"
    by (rule hexdigits.simps)
  then show ?thesis
    by (simp only: numeral_eq_Suc [symmetric])
qed

lemma length_hexdigits: "length (hexdigits k n) = k"
  by (induction k arbitrary: n) simp_all

lemma str_oid_nonempty: "str_oid w \<noteq> []"
  using length_hexdigits [of 24 "unat w"] unfolding str_oid_def by force

lemma str_oid_255: "str_oid 255 = ''0000000000000000000000ff''"
  by (simp add: str_oid_def hexdigits_numeral digit_char_def)

text \<open>
  Claim C4, as amended: for every document whose \<open>_id\<close> is present and is not \<open>None\<close>, the
  serialized document binds \<open>id\<close> to \<open>str\<close> of that identifier and has no \<open>_id\<close> key.
\<close>

theorem serialize_doc_translates_id:
  "d ''_id'' = Some v \<Longrightarrow> v \<noteq> PNone \<Longrightarrow>
     serialize_doc d ''id'' = Some (PStr (py_str v)) \<and> serialize_doc d ''_id'' = None"
  by (simp add: serialize_doc_id_key serialize_doc_native_key)

text \<open>
  Claim C4 as it was stated, for every document that contains the key \<open>_id\<close>, fails on the
  document \<open>{"_id": None}\<close>: the key stays and no \<open>id\<close> is added.
\<close>

theorem serialize_doc_translates_id_counterexample:
  "[''_id'' \<mapsto> PNone] ''_id'' \<noteq> None
   \<and> \<not> (serialize_doc [''_id'' \<mapsto> PNone] ''id'' = Some (PStr (py_str PNone))
        \<and> serialize_doc [''_id'' \<mapsto> PNone] ''_id'' = None)"
  by (simp add: serialize_doc_id_key serialize_doc_native_key)

text \<open>
  Claim C8: the serializer is idempotent, and a document without \<open>_id\<close> whose timestamp
  fields, where present, are already strings is returned unchanged.
\<close>

theorem serialize_doc_idempotent:
  "serialize_doc (serialize_doc d) = serialize_doc d
   \<and> (d ''_id'' = None
        \<and> (\<forall>k\<in>{''created_at'', ''updated_at''}. d k = None \<or> (\<exists>s. d k = Some (PStr s)))
      \<longrightarrow> serialize_doc d = d)"
proof (intro conjI impI)
  show "serialize_doc (serialize_doc d) = serialize_doc d"
    by (rule serialize_doc_idem)
next
  assume "d ''_id'' = None
        \<and> (\<forall>k\<in>{''created_at'', ''updated_at''}. d k = None \<or> (\<exists>s. d k = Some (PStr s)))"
  then show "serialize_doc d = d"
    using serialize_doc_fixed [of d] by blast
qed


theorem serialize_doc_translates_id_witness:
  "[''_id'' \<mapsto> PObjectId 255, ''name'' \<mapsto> PStr ''Ada''] ''_id'' = Some (PObjectId 255)
   \<and> PObjectId 255 \<noteq> PNone
   \<and> serialize_doc [''_id'' \<mapsto> PObjectId 255, ''name'' \<mapsto> PStr ''Ada''] ''id''
       = Some (PStr ''0000000000000000000000ff'')
   \<and> serialize_doc [''_id'' \<mapsto> PObjectId 255, ''name'' \<mapsto> PStr ''Ada''] ''_id'' = None"
  using serialize_doc_translates_id
    [of "[''_id'' \<mapsto> PObjectId 255, ''name'' \<mapsto> PStr ''Ada'']" "PObjectId 255"]
  by (simp add: str_oid_255)

theorem serialize_doc_idempotent_witness:
  "[''id'' \<mapsto> PStr ''0000000000000000000000ff'',
    ''created_at'' \<mapsto> PStr ''2024-05-01T10:00:00+00:00''] ''_id'' = None
   \<and> [''id'' \<mapsto> PStr ''0000000000000000000000ff'',
       ''created_at'' \<mapsto> PStr ''2024-05-01T10:00:00+00:00''] ''created_at''
       = Some (PStr ''2024-05-01T10:00:00+00:00'')
   \<and> [''id'' \<mapsto> PStr ''0000000000000000000000ff'',
       ''created_at'' \<mapsto> PStr ''2024-05-01T10:00:00+00:00''] ''updated_at'' = None
   \<and> serialize_doc [''id'' \<mapsto> PStr ''0000000000000000000000ff'',
                     ''created_at'' \<mapsto> PStr ''2024-05-01T10:00:00+00:00'']
       = [''id'' \<mapsto> PStr ''0000000000000000000000ff'',
          ''created_at'' \<mapsto> PStr ''2024-05-01T10:00:00+00:00'']"
  using serialize_doc_idempotent
    [of "[''id'' \<mapsto> PStr ''0000000000000000000000ff'',
          ''created_at'' \<mapsto> PStr ''2024-05-01T10:00:00+00:00'']"]
  by simp

section \<open>Properties of the sort\<close>

lemma keys_of_length: "keys_of key xs = Inr ks \<Longrightarrow> length ks = length xs"
  by (induction xs arbitrary: ks) (auto split: sum.splits)

lemma keys_of_zip:
  "keys_of key xs = Inr ks \<Longrightarrow> \<forall>p\<in>set (zip ks xs). key (snd p) = Inr (fst p)"
  by (induction xs arbitrary: ks) (auto split: sum.splits)

lemma keys_of_pairs:
  "\<forall>p\<in>set ps. key (snd p) = Inr (fst p) \<Longrightarrow> keys_of key (map snd ps) = Inr (map fst ps)"
  by (induction ps) auto

lemma keys_of_fails: "x \<in> set xs \<Longrightarrow> key x = Inl e \<Longrightarrow> \<exists>e'. keys_of key xs = Inl e'"
  by (induction xs) (auto split: sum.splits)

lemma keys_of_succeeds: "\<forall>x\<in>set xs. \<exists>k. key x = Inr k \<Longrightarrow> \<exists>ks. keys_of key xs = Inr ks"
  by (induction xs) (auto split: sum.splits)

lemma keys_of_map: "\<forall>x. key (f x) = key x \<Longrightarrow> keys_of key (map f xs) = keys_of key xs"
  by (induction xs) (auto split: sum.splits)

lemma filter_pairs:
  "\<forall>p\<in>set ps. key (snd p) = Inr (fst p) \<Longrightarrow>
     filter (\<lambda>x. key x = Inr k) (map snd ps) = map snd (filter (\<lambda>p. fst p = k) ps)"
  by (induction ps) auto

lemma sort_reverse_stable:
  "filter (\<lambda>p. fst p = k) (rev (sort_key fst (rev ps))) = filter (\<lambda>p. fst p = k) ps"
  by (simp add: rev_filter [symmetric] sort_key_stable)

lemma sort_reverse_descending:
  "sorted_wrt (\<lambda>a b. b \<le> a) (map fst (rev (sort_key fst (rev ps))))"
  using sorted_sort_key [of fst "rev ps"]
  by (simp add: sorted_wrt_map sorted_wrt_rev)

lemma sort_key_reverse_descending:
  assumes "sort_key_reverse key xs = Inr ys"
  shows "\<exists>ks. keys_of key ys = Inr ks \<and> sorted_wrt (\<lambda>a b. b \<le> a) ks"
proof -
  from assms obtain ks where ks: "keys_of key xs = Inr ks"
    and ys: "ys = map snd (rev (sort_key fst (rev (zip ks xs))))"
    by (auto simp: sort_key_reverse_def split: sum.splits)
  let ?qs = "rev (sort_key fst (rev (zip ks xs)))"
  have "\<forall>p\<in>set ?qs. key (snd p) = Inr (fst p)"
    using keys_of_zip [OF ks] by simp
  then have "keys_of key ys = Inr (map fst ?qs)"
    unfolding ys by (rule keys_of_pairs)
  then show ?thesis
    using sort_reverse_descending [of "zip ks xs"] by blast
qed

lemma sort_key_reverse_stable:
  assumes "sort_key_reverse key xs = Inr ys"
  shows "filter (\<lambda>x. key x = Inr k) ys = filter (\<lambda>x. key x = Inr k) xs"
proof -
  from assms obtain ks where ks: "keys_of key xs = Inr ks"
    and ys: "ys = map snd (rev (sort_key fst (rev (zip ks xs))))"
    by (auto simp: sort_key_reverse_def split: sum.splits)
  let ?ps = "zip ks xs"
  let ?qs = "rev (sort_key fst (rev ?ps))"
  have P: "\<forall>p\<in>set ?ps. key (snd p) = Inr (fst p)"
    using ks by (rule keys_of_zip)
  have Q: "\<forall>p\<in>set ?qs. key (snd p) = Inr (fst p)"
    using P by simp
  have "filter (\<lambda>x. key x = Inr k) ys = map snd (filter (\<lambda>p. fst p = k) ?qs)"
    unfolding ys using Q by (rule filter_pairs)
  also have "\<dots> = map snd (filter (\<lambda>p. fst p = k) ?ps)"
    by (simp only: sort_reverse_stable)
  also have "\<dots> = filter (\<lambda>x. key x = Inr k) (map snd ?ps)"
    using P by (rule filter_pairs [symmetric])
  also have "map snd ?ps = xs"
    using keys_of_length [OF ks] by simp
  finally show ?thesis .
qed

lemma sort_by_year_unsorted:
  assumes "d \<in> set docs" and "year_key d = Inl e"
  shows "sort_by_year docs = docs"
proof -
  obtain e' where "keys_of year_key docs = Inl e'"
    using keys_of_fails [of d docs year_key e] assms by blast
  then show ?thesis
    by (simp add: sort_by_year_def sort_key_reverse_def)
qed

lemma sort_by_year_sorted:
  assumes "\<forall>d\<in>set docs. \<exists>i. year_key d = Inr i"
  shows "sort_key_reverse year_key docs = Inr (sort_by_year docs)"
proof -
  obtain ks where "keys_of year_key docs = Inr ks"
    using keys_of_succeeds [of docs year_key] assms by blast
  then show ?thesis
    by (simp add: sort_by_year_def sort_key_reverse_def)
qed

lemma year_key_serialize_doc: "year_key (serialize_doc d) = year_key d"
  by (simp add: year_key_def serialize_doc_other_key)

lemma int_of_str_2020: "int_of_str ''2020'' = Inr 2020"
  by (simp add: int_of_str_def strip_def is_space_def is_digit_def digit_val_def
      max_str_digits_def)

lemma int_of_str_2021: "int_of_str ''2021'' = Inr 2021"
  by (simp add: int_of_str_def strip_def is_space_def is_digit_def digit_val_def
      max_str_digits_def)

lemma int_of_str_2022: "int_of_str ''2022'' = Inr 2022"
  by (simp add: int_of_str_def strip_def is_space_def is_digit_def digit_val_def
      max_str_digits_def)

lemma int_of_str_2023: "int_of_str ''2023'' = Inr 2023"
  by (simp add: int_of_str_def strip_def is_space_def is_digit_def digit_val_def
      max_str_digits_def)

lemma int_of_str_not_available: "int_of_str ''N/A'' = Inl ValueError"
  by (simp add: int_of_str_def strip_def is_space_def is_digit_def digit_val_def
      max_str_digits_def)

lemma sort_by_year_example:
  assumes "a ''year'' = Some (PStr ''2020'')" and "b ''year'' = Some (PStr ''2023'')"
    and "c ''year'' = Some (PStr ''2021'')" and "d ''year'' = Some (PStr ''2022'')"
  shows "sort_by_year [a, b, c, d] = [b, d, c, a]"
proof -
  have "keys_of year_key [a, b, c, d] = Inr [2020, 2023, 2021, 2022]"
    using assms
    by (simp add: year_key_def int_of_str_2020 int_of_str_2021 int_of_str_2022 int_of_str_2023)
  then show ?thesis
    by (simp add: sort_by_year_def sort_key_reverse_def)
qed

section \<open>Properties of seeding\<close>

lemma stamp_seed_eq:
  "stamp_seed ds w =
     (stamped_at (clock w) (clock_reads w) ds, w\<lparr>clock_reads := clock_reads w + 2 * length ds\<rparr>)"
proof (induction ds arbitrary: w)
  case Nil
  show ?case by simp
next
  case (Cons s ss)
  show ?case
    by (simp add: utcnow_def Cons.IH reading_def)
qed

lemma assign_ids_eq:
  "\<forall>d\<in>set ds. d ''_id'' = None \<Longrightarrow>
     assign_ids ds w =
       (with_ids (oids w) (oids_issued w) ds, w\<lparr>oids_issued := oids_issued w + length ds\<rparr>)"
proof (induction ds arbitrary: w)
  case Nil
  show ?case by simp
next
  case (Cons d ds)
  from Cons.prems have "d ''_id'' = None" and rest: "\<forall>d\<in>set ds. d ''_id'' = None"
    by simp_all
  then show ?case
    by (simp add: new_oid_def Cons.IH [OF rest])
qed

lemma stamped_at_no_id:
  "\<forall>d\<in>set ds. d ''_id'' = None \<Longrightarrow> \<forall>d\<in>set (stamped_at clk r ds). d ''_id'' = None"
  by (induction ds arbitrary: r) simp_all

lemma length_stamped_at: "length (stamped_at clk r ds) = length ds"
  by (induction ds arbitrary: r) simp_all

lemma length_with_ids: "length (with_ids gen n ds) = length ds"
  by (induction ds arbitrary: n) simp_all

lemma bare_stamped:
  assumes "d ''_id'' = None" and "d ''created_at'' = None" and "d ''updated_at'' = None"
  shows "bare (d(''created_at'' \<mapsto> a, ''updated_at'' \<mapsto> b, ''_id'' \<mapsto> i)) = d"
  using assms by (auto simp: bare_def restrict_map_def fun_eq_iff)

lemma bare_with_ids_stamped:
  "\<forall>d\<in>set ds. d ''_id'' = None \<and> d ''created_at'' = None \<and> d ''updated_at'' = None \<Longrightarrow>
     map bare (with_ids gen n (stamped_at clk r ds)) = ds"
  by (induction ds arbitrary: n r) (simp_all add: bare_stamped)

lemma seed_keys:
  "\<forall>d\<in>set seed. d ''_id'' = None \<and> d ''created_at'' = None \<and> d ''updated_at'' = None"
  by (simp add: seed_def)

lemma length_seed: "length seed = 4"
  by (simp add: seed_def)

lemma ensure_seed_unavailable: "db w = None \<Longrightarrow> ensure_seed_projects w = Inr w"
  by (simp add: ensure_seed_projects_def)

lemma ensure_seed_nonempty:
  "db w = Some s \<Longrightarrow> s ''projects'' \<noteq> [] \<Longrightarrow>
     ensure_seed_projects w = Inr (log_call (CountDocuments ''projects'') w)"
  by (simp add: ensure_seed_projects_def count_documents_def)

lemma ensure_seed_empty:
  assumes "db w = Some s" and "s ''projects'' = []"
  shows "ensure_seed_projects w = Inr (seeded w s)"
proof -
  let ?w1 = "log_call (CountDocuments ''projects'') w"
  let ?w2 = "?w1\<lparr>clock_reads := clock_reads w + 8\<rparr>"
  let ?st = "stamped_at (clock w) (clock_reads w) seed"
  have stamp: "stamp_seed seed ?w1 = (?st, ?w2)"
    by (simp add: stamp_seed_eq length_seed log_call_def)
  have noid: "\<forall>d\<in>set ?st. d ''_id'' = None"
    using seed_keys by (intro stamped_at_no_id) blast
  have ids: "assign_ids ?st ?w2 =
      (with_ids (oids w) (oids_issued w) ?st, ?w2\<lparr>oids_issued := oids_issued w + 4\<rparr>)"
    using assign_ids_eq [OF noid, of ?w2]
    by (simp add: length_stamped_at length_seed log_call_def)
  have ne: "?st \<noteq> []"
    using length_stamped_at [of "clock w" "clock_reads w" seed] length_seed by auto
  have cnt: "count_documents ''projects'' w = Inr (0, ?w1)"
    using assms by (simp add: count_documents_def)
  have "ensure_seed_projects w = insert_many ''projects'' ?st ?w2"
    using assms(1) by (simp add: ensure_seed_projects_def cnt stamp)
  also have "\<dots> = Inr (seeded w s)"
    using ne assms ids
    by (simp add: insert_many_def log_call_def seeded_def length_stamped_at length_seed)
  finally show ?thesis .
qed

lemma nth_with_ids_stamped:
  "i < length ds \<Longrightarrow>
     (with_ids gen n (stamped_at clk r ds) ! i) ''created_at''
       = Some (PDatetime (reading clk (r + 2 * i)))
     \<and> (with_ids gen n (stamped_at clk r ds) ! i) ''updated_at''
       = Some (PDatetime (reading clk (r + 2 * i + 1)))"
proof (induction ds arbitrary: i n r)
  case Nil
  then show ?case by simp
next
  case (Cons d ds)
  show ?case
  proof (cases i)
    case 0
    then show ?thesis by simp
  next
    case (Suc j)
    then have "j < length ds" using Cons.prems by simp
    from Cons.IH [OF this, of "Suc n" "Suc (Suc r)"] Suc
    show ?thesis by simp
  qed
qed

lemma projects_of_seeded:
  "s ''projects'' = [] \<Longrightarrow>
     projects_of (seeded w s) = with_ids (oids w) (oids_issued w) (stamped_at (clock w) (clock_reads w) seed)"
  by (simp add: projects_of_def seeded_def)

lemma length_projects_of_seeded: "s ''projects'' = [] \<Longrightarrow> length (projects_of (seeded w s)) = 4"
  by (simp add: projects_of_seeded length_with_ids length_stamped_at length_seed)

lemma ensure_seed_again:
  assumes "db w = Some s" and "ensure_seed_projects w = Inr w'"
  shows "ensure_seed_projects w' = Inr (log_call (CountDocuments ''projects'') w')"
proof (cases "s ''projects'' = []")
  case True
  then have w': "w' = seeded w s"
    using assms ensure_seed_empty [of w s] by simp
  have "length (projects_of w') = 4"
    unfolding w' using True by (rule length_projects_of_seeded)
  then have "projects_of w' \<noteq> []"
    by auto
  then obtain s' where "db w' = Some s'" and "s' ''projects'' \<noteq> []"
    by (auto simp: projects_of_def split: option.splits)
  then show ?thesis by (rule ensure_seed_nonempty)
next
  case False
  then have w': "w' = log_call (CountDocuments ''projects'') w"
    using assms ensure_seed_nonempty [of w s] by simp
  have "db w' = Some s"
    unfolding w' using assms(1) by (simp add: log_call_def)
  then show ?thesis using False by (rule ensure_seed_nonempty)
qed

text \<open>
  Claim C2: seeding inserts the four bootstrap records if and only if the collection
  \<open>projects\<close> is empty. Without a store (\<open>db\<close> is \<open>None\<close>) the world is returned as it is,
  with no call on the store. With a store, an empty collection ends with exactly four
  documents, the bootstrap records with their identifiers and timestamps, after one count
  and one insert; a collection that is not empty is only counted. A call that follows
  immediately only counts again.
\<close>

theorem ensure_seed_projects_iff_empty:
  "(db w = None \<longrightarrow> ensure_seed_projects w = Inr w)
   \<and> (\<forall>s. db w = Some s \<longrightarrow>
        (\<exists>w'. ensure_seed_projects w = Inr w'
           \<and> (s ''projects'' = [] \<longrightarrow>
                length (projects_of w') = 4 \<and> map bare (projects_of w') = seed
                \<and> db w' = Some (s(''projects'' := projects_of w'))
                \<and> store_calls w' =
                    store_calls w @ [CountDocuments ''projects'', InsertMany ''projects'' 4])
           \<and> (s ''projects'' \<noteq> [] \<longrightarrow> w' = log_call (CountDocuments ''projects'') w)
           \<and> ensure_seed_projects w' = Inr (log_call (CountDocuments ''projects'') w')))"
proof (intro conjI impI allI)
  assume "db w = None"
  then show "ensure_seed_projects w = Inr w"
    by (rule ensure_seed_unavailable)
next
  fix s
  assume conn: "db w = Some s"
  show "\<exists>w'. ensure_seed_projects w = Inr w'
           \<and> (s ''projects'' = [] \<longrightarrow>
                length (projects_of w') = 4 \<and> map bare (projects_of w') = seed
                \<and> db w' = Some (s(''projects'' := projects_of w'))
                \<and> store_calls w' =
                    store_calls w @ [CountDocuments ''projects'', InsertMany ''projects'' 4])
           \<and> (s ''projects'' \<noteq> [] \<longrightarrow> w' = log_call (CountDocuments ''projects'') w)
           \<and> ensure_seed_projects w' = Inr (log_call (CountDocuments ''projects'') w')"
  proof (cases "s ''projects'' = []")
    case True
    have run: "ensure_seed_projects w = Inr (seeded w s)"
      using conn True by (rule ensure_seed_empty)
    have "map bare (projects_of (seeded w s)) = seed"
      using True seed_keys by (simp add: projects_of_seeded bare_with_ids_stamped)
    moreover have "db (seeded w s) = Some (s(''projects'' := projects_of (seeded w s)))"
      using True by (simp add: projects_of_def seeded_def)
    moreover have "store_calls (seeded w s) =
        store_calls w @ [CountDocuments ''projects'', InsertMany ''projects'' 4]"
      by (simp add: seeded_def)
    ultimately show ?thesis
      using run True length_projects_of_seeded [of s w] ensure_seed_again [OF conn run]
      by simp
  next
    case False
    have run: "ensure_seed_projects w = Inr (log_call (CountDocuments ''projects'') w)"
      using conn False by (rule ensure_seed_nonempty)
    show ?thesis
      using run False ensure_seed_again [OF conn run] by simp
  qed
qed

text \<open>
  Claim C3, as amended: for each of the four seeded records the clock is read twice, first
  for \<open>created_at\<close> and then for \<open>updated_at\<close>, eight readings in all; the two fields hold
  two consecutive readings.
\<close>

theorem seed_timestamps_two_readings:
  assumes "db w = Some s" and "s ''projects'' = []"
  shows "\<exists>w'. ensure_seed_projects w = Inr w'
           \<and> length (projects_of w') = 4
           \<and> clock_reads w' = clock_reads w + 8
           \<and> (\<forall>i<4. (projects_of w' ! i) ''created_at''
                        = Some (PDatetime (reading (clock w) (clock_reads w + 2 * i)))
                    \<and> (projects_of w' ! i) ''updated_at''
                        = Some (PDatetime (reading (clock w) (clock_reads w + 2 * i + 1))))"
proof -
  have run: "ensure_seed_projects w = Inr (seeded w s)"
    using assms by (rule ensure_seed_empty)
  have "clock_reads (seeded w s) = clock_reads w + 8"
    by (simp add: seeded_def)
  moreover have "\<forall>i<4. (projects_of (seeded w s) ! i) ''created_at''
                        = Some (PDatetime (reading (clock w) (clock_reads w + 2 * i)))
                    \<and> (projects_of (seeded w s) ! i) ''updated_at''
                        = Some (PDatetime (reading (clock w) (clock_reads w + 2 * i + 1)))"
    using nth_with_ids_stamped [of _ seed "oids w" "oids_issued w" "clock w" "clock_reads w"]
    using assms(2) by (simp add: projects_of_seeded length_seed)
  ultimately show ?thesis
    using run assms(2) length_projects_of_seeded [of s w] by blast
qed


lemma example_world_simps:
  "db example_world = Some empty_store" "clock example_world = example_clock"
  "clock_reads example_world = 0" "oids example_world = of_nat" "oids_issued example_world = 0"
  "store_calls example_world = []" "empty_store c = []"
  by (simp_all add: example_world_def empty_store_def)

theorem ensure_seed_projects_iff_empty_witness:
  "db offline_world = None \<and> ensure_seed_projects offline_world = Inr offline_world
   \<and> db example_world = Some empty_store \<and> empty_store ''projects'' = []
   \<and> (\<exists>w'. ensure_seed_projects example_world = Inr w'
          \<and> length (projects_of w') = 4 \<and> map bare (projects_of w') = seed
          \<and> store_calls w' = [CountDocuments ''projects'', InsertMany ''projects'' 4]
          \<and> ensure_seed_projects w' = Inr (log_call (CountDocuments ''projects'') w'))
   \<and> db busy_world = Some busy_store \<and> busy_store ''projects'' \<noteq> []
   \<and> ensure_seed_projects busy_world = Inr (log_call (CountDocuments ''projects'') busy_world)"
proof -
  have off: "db offline_world = None"
    by (simp add: offline_world_def)
  have busy: "db busy_world = Some busy_store" "busy_store ''projects'' \<noteq> []"
    by (simp_all add: busy_world_def busy_store_def)
  show ?thesis
    using ensure_seed_projects_iff_empty [of offline_world]
      ensure_seed_projects_iff_empty [of example_world]
      ensure_seed_projects_iff_empty [of busy_world]
    by (simp add: off busy example_world_simps) blast
qed

theorem seed_timestamps_two_readings_witness:
  "db example_world = Some empty_store \<and> empty_store ''projects'' = []
   \<and> (\<exists>w'. ensure_seed_projects example_world = Inr w'
          \<and> length (projects_of w') = 4
          \<and> clock_reads w' = 8
          \<and> (projects_of w' ! 0) ''created_at'' = Some (PDatetime (example_clock 0))
          \<and> (projects_of w' ! 0) ''updated_at'' = Some (PDatetime (example_clock 1)))"
proof -
  have r: "reading example_clock n = example_clock n" for n
    by (simp add: reading_def example_clock_def)
  show ?thesis
    using seed_timestamps_two_readings [of example_world empty_store]
    by (simp add: example_world_simps r) fastforce
qed

text \<open>
  Claim C3 as it was stated fails when the clock advances between two readings: the first
  seeded record then has a \<open>created_at\<close> that differs from its \<open>updated_at\<close>.
\<close>

theorem seed_timestamps_counterexample:
  "ensure_seed_projects example_world = Inr (seeded example_world empty_store)
   \<and> (projects_of (seeded example_world empty_store) ! 0) ''created_at''
       \<noteq> (projects_of (seeded example_world empty_store) ! 0) ''updated_at''"
proof -
  have run: "ensure_seed_projects example_world = Inr (seeded example_world empty_store)"
    by (rule ensure_seed_empty) (simp_all add: example_world_simps)
  have "reading example_clock 0 \<noteq> reading example_clock 1"
    by (simp add: reading_def example_clock_def)
  then show ?thesis
    using run nth_with_ids_stamped [of 0 seed of_nat 0 example_clock 0]
    by (simp add: projects_of_seeded example_world_simps length_seed)
qed

section \<open>Properties of the listing\<close>

lemma list_projects_eq:
  fixes get_documents :: get_documents_fn
  assumes "ensure_seed_projects w = Inr ws" and "get_documents ''projects'' ws = Inr (docs, wd)"
  shows "list_projects get_documents w = Inr (map serialize_doc (sort_by_year docs), wd)"
  using assms by (simp add: list_projects_def)

lemma year_key_absent: "d ''year'' = None \<Longrightarrow> year_key d = Inr 0"
  by (simp add: year_key_def)

lemma year_key_null: "d ''year'' = Some PNone \<Longrightarrow> year_key d = Inl TypeError"
  by (simp add: year_key_def)

lemma int_of_str_separator: "int_of_str (CHR 0x1C # ''2020'') = Inl ValueError"
  by (simp add: int_of_str_def strip_def is_space_def is_digit_def digit_val_def
      max_str_digits_def)

lemma year_key_separator:
  "d ''year'' = Some (PStr (CHR 0x1C # ''2020'')) \<Longrightarrow> year_key d = Inl ValueError"
  by (simp add: year_key_def int_of_str_separator)

lemma year_key_not_available: "d ''year'' = Some (PStr ''N/A'') \<Longrightarrow> year_key d = Inl ValueError"
  by (simp add: year_key_def int_of_str_not_available)

lemma keys_of_Inr_map: "keys_of key xs = Inr ks \<Longrightarrow> map key xs = map Inr ks"
  by (induction xs arbitrary: ks) (auto split: sum.splits)

lemma sort_key_reverse_set:
  assumes "sort_key_reverse key xs = Inr ys"
  shows "set ys = set xs \<and> length ys = length xs"
proof -
  from assms obtain ks where ks: "keys_of key xs = Inr ks"
    and ys: "ys = map snd (rev (sort_key fst (rev (zip ks xs))))"
    by (auto simp: sort_key_reverse_def split: sum.splits)
  have len: "length ks = length xs"
    using ks by (rule keys_of_length)
  have "set ys = set (map snd (zip ks xs))"
    unfolding ys by simp
  also have "map snd (zip ks xs) = xs"
    using len by simp
  finally have "set ys = set xs" .
  moreover have "length ys = length xs"
    unfolding ys using len by simp
  ultimately show ?thesis by simp
qed

lemma map_Inr_eq: "map Inr ks = map (\<lambda>d. Inr (f d)) ys \<Longrightarrow> ks = map f ys"
  by (induction ys arbitrary: ks) auto

lemma serialize_doc_year: "serialize_doc d ''year'' = d ''year''"
  by (simp add: serialize_doc_other_key)

text \<open>
  Claim C1: let \<open>yr\<close> give the integer of every fetched document, \<open>0\<close> when the year is
  absent and the value that \<open>int\<close> parses from the string otherwise. Then the listing returns
  the serialized documents, a rearrangement of the fetched ones with their years untouched,
  in descending order of \<open>yr\<close>, and documents with the same integer keep the order in which
  they were fetched. Four records with the years 2020, 2023, 2021 and 2022 come back in the
  order 2023, 2022, 2021, 2020.
\<close>

theorem list_projects_sorted_by_year:
  fixes get_documents :: get_documents_fn and yr :: "doc \<Rightarrow> int"
  assumes "ensure_seed_projects w = Inr ws"
    and "get_documents ''projects'' ws = Inr (docs, wd)"
    and "\<forall>d\<in>set docs. (d ''year'' = None \<and> yr d = 0)
           \<or> (\<exists>s. d ''year'' = Some (PStr s) \<and> int_of_str s = Inr (yr d))"
  shows "\<exists>ys. list_projects get_documents w = Inr (map serialize_doc ys, wd)
           \<and> map (\<lambda>d. d ''year'') (map serialize_doc ys) = map (\<lambda>d. d ''year'') ys
           \<and> set ys = set docs \<and> length ys = length docs
           \<and> sorted_wrt (\<lambda>a b. yr b \<le> yr a) ys
           \<and> (\<forall>k. filter (\<lambda>d. yr d = k) ys = filter (\<lambda>d. yr d = k) docs)
           \<and> (\<forall>a b c d. docs = [a, b, c, d]
                  \<and> a ''year'' = Some (PStr ''2020'') \<and> b ''year'' = Some (PStr ''2023'')
                  \<and> c ''year'' = Some (PStr ''2021'') \<and> d ''year'' = Some (PStr ''2022'')
                \<longrightarrow> ys = [b, d, c, a])"
proof -
  let ?ys = "sort_by_year docs"
  have yk: "year_key d = Inr (yr d)" if "d \<in> set docs" for d
  proof -
    have "(d ''year'' = None \<and> yr d = 0)
           \<or> (\<exists>s. d ''year'' = Some (PStr s) \<and> int_of_str s = Inr (yr d))"
      using assms(3) that by blast
    then show ?thesis
      by (auto simp: year_key_def)
  qed
  have "\<forall>d\<in>set docs. \<exists>i. year_key d = Inr i"
    using yk by blast
  then have sorted_ys: "sort_key_reverse year_key docs = Inr ?ys"
    by (rule sort_by_year_sorted)
  have same: "set ?ys = set docs" and len: "length ?ys = length docs"
    using sort_key_reverse_set [OF sorted_ys] by simp_all
  obtain ks where ks: "keys_of year_key ?ys = Inr ks" and desc: "sorted_wrt (\<lambda>a b. b \<le> a) ks"
    using sort_key_reverse_descending [OF sorted_ys] by blast
  have "map Inr ks = map year_key ?ys"
    using keys_of_Inr_map [OF ks] by simp
  also have "\<dots> = map (\<lambda>d. Inr (yr d)) ?ys"
    using yk same by (intro map_cong) auto
  finally have "ks = map yr ?ys"
    by (rule map_Inr_eq)
  then have ordered: "sorted_wrt (\<lambda>a b. yr b \<le> yr a) ?ys"
    using desc by (simp add: sorted_wrt_map)
  have stable: "filter (\<lambda>d. yr d = k) ?ys = filter (\<lambda>d. yr d = k) docs" for k
  proof -
    have "filter (\<lambda>d. yr d = k) ?ys = filter (\<lambda>d. year_key d = Inr k) ?ys"
      using yk same by (intro filter_cong) auto
    also have "\<dots> = filter (\<lambda>d. year_key d = Inr k) docs"
      using sorted_ys by (rule sort_key_reverse_stable)
    also have "\<dots> = filter (\<lambda>d. yr d = k) docs"
      using yk by (intro filter_cong) auto
    finally show ?thesis .
  qed
  have example: "?ys = [b, d, c, a]"
    if "docs = [a, b, c, d]" "a ''year'' = Some (PStr ''2020'')" "b ''year'' = Some (PStr ''2023'')"
      "c ''year'' = Some (PStr ''2021'')" "d ''year'' = Some (PStr ''2022'')" for a b c d
    using that sort_by_year_example [of a b c d] by simp
  have year: "map (\<lambda>d. d ''year'') (map serialize_doc ?ys) = map (\<lambda>d. d ''year'') ?ys"
    by (simp add: serialize_doc_year)
  have "list_projects get_documents w = Inr (map serialize_doc ?ys, wd)"
    using assms(1,2) by (rule list_projects_eq)
  then show ?thesis
    using year same len ordered stable example by blast
qed

text \<open>
  Claim C5: when the integer coercion of the year fails for some fetched document, the
  listing raises nothing and returns the fetched documents, serialized, in the order in
  which they were fetched; the year \<open>N/A\<close> is such a failure, and so is a year that starts
  with the separator \<open>0x1C\<close>, which \<open>int\<close> does not strip.
\<close>

theorem list_projects_unsorted_on_failure:
  fixes get_documents :: get_documents_fn
  assumes "ensure_seed_projects w = Inr ws"
    and "get_documents ''projects'' ws = Inr (docs, wd)"
    and "d \<in> set docs" and "year_key d = Inl e"
  shows "list_projects get_documents w = Inr (map serialize_doc docs, wd)
         \<and> (\<forall>d'. d' ''year'' = Some (PStr ''N/A'') \<longrightarrow> year_key d' = Inl ValueError)
         \<and> (\<forall>d'. d' ''year'' = Some (PStr (CHR 0x1C # ''2020''))
                \<longrightarrow> year_key d' = Inl ValueError)"
  using assms list_projects_eq [of w ws get_documents docs wd]
    sort_by_year_unsorted [of d docs e] year_key_not_available year_key_separator by simp

text \<open>
  Claim C10: a document whose \<open>year\<close> key is present and bound to \<open>None\<close> makes the
  coercion fail, so the whole list is returned in fetched order; the default \<open>0\<close> applies
  only when the key is absent.
\<close>

theorem list_projects_null_year:
  fixes get_documents :: get_documents_fn
  assumes "ensure_seed_projects w = Inr ws"
    and "get_documents ''projects'' ws = Inr (docs, wd)"
    and "d \<in> set docs" and "d ''year'' = Some PNone"
  shows "year_key d = Inl TypeError
         \<and> list_projects get_documents w = Inr (map serialize_doc docs, wd)
         \<and> (\<forall>d'. d' ''year'' = None \<longrightarrow> year_key d' = Inr 0)"
  using assms list_projects_eq [of w ws get_documents docs wd] year_key_null [of d]
    sort_by_year_unsorted [of d docs TypeError] year_key_absent
  by simp


lemma counted_world:
  "db w = Some s \<Longrightarrow> s ''projects'' \<noteq> [] \<Longrightarrow>
     get_documents_spec ''projects'' (log_call (CountDocuments ''projects'') w)
       = Inr (s ''projects'',
              log_call (Find ''projects'') (log_call (CountDocuments ''projects'') w))"
  by (simp add: get_documents_spec_def log_call_def)

theorem list_projects_sorted_by_year_witness:
  "ensure_seed_projects years_world = Inr (log_call (CountDocuments ''projects'') years_world)
   \<and> get_documents_spec ''projects'' (log_call (CountDocuments ''projects'') years_world)
       = Inr (years_store ''projects'',
              log_call (Find ''projects'') (log_call (CountDocuments ''projects'') years_world))
   \<and> map (\<lambda>d. d ''year'') (years_store ''projects'')
       = [Some (PStr ''2020''), Some (PStr ''2023''), Some (PStr ''2021''), Some (PStr ''2022'')]
   \<and> map int_of_str [''2020'', ''2023'', ''2021'', ''2022'']
       = [Inr 2020, Inr 2023, Inr 2021, Inr 2022]
   \<and> map years_store_year (years_store ''projects'') = [2020, 2023, 2021, 2022]
   \<and> list_projects get_documents_spec years_world
       = Inr (map serialize_doc
                [project_of_year ''B'' (PStr ''2023''), project_of_year ''D'' (PStr ''2022''),
                 project_of_year ''C'' (PStr ''2021''), project_of_year ''A'' (PStr ''2020'')],
              log_call (Find ''projects'') (log_call (CountDocuments ''projects'') years_world))"
proof -
  let ?ws = "log_call (CountDocuments ''projects'') years_world"
  let ?wd = "log_call (Find ''projects'') ?ws"
  have conn: "db years_world = Some years_store" "years_store ''projects'' \<noteq> []"
    by (simp_all add: years_world_def years_store_def)
  have seed_run: "ensure_seed_projects years_world = Inr ?ws"
    using conn by (rule ensure_seed_nonempty)
  have fetch: "get_documents_spec ''projects'' ?ws = Inr (years_store ''projects'', ?wd)"
    using conn by (rule counted_world)
  have years: "\<forall>d\<in>set (years_store ''projects'').
           (d ''year'' = None \<and> years_store_year d = 0)
           \<or> (\<exists>s. d ''year'' = Some (PStr s) \<and> int_of_str s = Inr (years_store_year d))"
    by (simp add: years_store_def project_of_year_def years_store_year_def
        int_of_str_2020 int_of_str_2021 int_of_str_2022 int_of_str_2023)
  obtain ys where out: "list_projects get_documents_spec years_world
        = Inr (map serialize_doc ys, ?wd)"
    and example: "\<forall>a b c d. years_store ''projects'' = [a, b, c, d]
                  \<and> a ''year'' = Some (PStr ''2020'') \<and> b ''year'' = Some (PStr ''2023'')
                  \<and> c ''year'' = Some (PStr ''2021'') \<and> d ''year'' = Some (PStr ''2022'')
                \<longrightarrow> ys = [b, d, c, a]"
    using list_projects_sorted_by_year
      [where get_documents = get_documents_spec and yr = years_store_year and w = years_world
        and ws = "?ws" and wd = "?wd" and docs = "years_store ''projects''"]
      seed_run fetch years by blast
  have "ys = [project_of_year ''B'' (PStr ''2023''), project_of_year ''D'' (PStr ''2022''),
              project_of_year ''C'' (PStr ''2021''), project_of_year ''A'' (PStr ''2020'')]"
    by (rule example [rule_format]) (simp add: years_store_def project_of_year_def)
  moreover have "map (\<lambda>d. d ''year'') (years_store ''projects'')
       = [Some (PStr ''2020''), Some (PStr ''2023''), Some (PStr ''2021''), Some (PStr ''2022'')]"
    by (simp add: years_store_def project_of_year_def)
  moreover have "map int_of_str [''2020'', ''2023'', ''2021'', ''2022'']
       = [Inr 2020, Inr 2023, Inr 2021, Inr 2022]"
    by (simp add: int_of_str_2020 int_of_str_2021 int_of_str_2022 int_of_str_2023)
  moreover have "map years_store_year (years_store ''projects'') = [2020, 2023, 2021, 2022]"
    by (simp add: years_store_def project_of_year_def years_store_year_def)
  ultimately show ?thesis
    using seed_run fetch out by simp
qed

theorem list_projects_unsorted_on_failure_witness:
  "ensure_seed_projects unparsed_world = Inr (log_call (CountDocuments ''projects'') unparsed_world)
   \<and> get_documents_spec ''projects'' (log_call (CountDocuments ''projects'') unparsed_world)
       = Inr (unparsed_store ''projects'',
              log_call (Find ''projects'') (log_call (CountDocuments ''projects'') unparsed_world))
   \<and> project_of_year ''B'' (PStr ''N/A'') \<in> set (unparsed_store ''projects'')
   \<and> year_key (project_of_year ''B'' (PStr ''N/A'')) = Inl ValueError
   \<and> list_projects get_documents_spec unparsed_world
       = Inr (map serialize_doc
                [project_of_year ''A'' (PStr ''2020''), project_of_year ''B'' (PStr ''N/A''),
                 project_of_year ''C'' (PStr ''2023''), project_of_year ''D'' (PStr ''2022'')],
              log_call (Find ''projects'') (log_call (CountDocuments ''projects'') unparsed_world))"
proof -
  let ?ws = "log_call (CountDocuments ''projects'') unparsed_world"
  let ?wd = "log_call (Find ''projects'') ?ws"
  have conn: "db unparsed_world = Some unparsed_store" "unparsed_store ''projects'' \<noteq> []"
    by (simp_all add: unparsed_world_def unparsed_store_def)
  have seed_run: "ensure_seed_projects unparsed_world = Inr ?ws"
    using conn by (rule ensure_seed_nonempty)
  have fetch: "get_documents_spec ''projects'' ?ws = Inr (unparsed_store ''projects'', ?wd)"
    using conn by (rule counted_world)
  have mem: "project_of_year ''B'' (PStr ''N/A'') \<in> set (unparsed_store ''projects'')"
    by (simp add: unparsed_store_def)
  have fails: "year_key (project_of_year ''B'' (PStr ''N/A'')) = Inl ValueError"
    by (simp add: year_key_def project_of_year_def int_of_str_not_available)
  show ?thesis
    using list_projects_unsorted_on_failure
      [where get_documents = get_documents_spec and w = unparsed_world and ws = "?ws" and wd = "?wd"
        and docs = "unparsed_store ''projects''" and d = "project_of_year ''B'' (PStr ''N/A'')" and e = ValueError]
      seed_run fetch mem fails
    by (simp add: unparsed_store_def)
qed

theorem list_projects_null_year_witness:
  "ensure_seed_projects null_year_world
     = Inr (log_call (CountDocuments ''projects'') null_year_world)
   \<and> get_documents_spec ''projects'' (log_call (CountDocuments ''projects'') null_year_world)
       = Inr (null_year_store ''projects'',
              log_call (Find ''projects'') (log_call (CountDocuments ''projects'') null_year_world))
   \<and> project_of_year ''B'' PNone \<in> set (null_year_store ''projects'')
   \<and> project_of_year ''B'' PNone ''year'' = Some PNone
   \<and> list_projects get_documents_spec null_year_world
       = Inr (map serialize_doc
                [project_of_year ''A'' (PStr ''2020''), project_of_year ''B'' PNone,
                 project_of_year ''C'' (PStr ''2023'')],
              log_call (Find ''projects'') (log_call (CountDocuments ''projects'') null_year_world))"
proof -
  let ?ws = "log_call (CountDocuments ''projects'') null_year_world"
  let ?wd = "log_call (Find ''projects'') ?ws"
  have conn: "db null_year_world = Some null_year_store" "null_year_store ''projects'' \<noteq> []"
    by (simp_all add: null_year_world_def null_year_store_def)
  have seed_run: "ensure_seed_projects null_year_world = Inr ?ws"
    using conn by (rule ensure_seed_nonempty)
  have fetch: "get_documents_spec ''projects'' ?ws = Inr (null_year_store ''projects'', ?wd)"
    using conn by (rule counted_world)
  have mem: "project_of_year ''B'' PNone \<in> set (null_year_store ''projects'')"
    by (simp add: null_year_store_def)
  have null: "project_of_year ''B'' PNone ''year'' = Some PNone"
    by (simp add: project_of_year_def)
  show ?thesis
    using list_projects_null_year
      [where get_documents = get_documents_spec and w = null_year_world and ws = "?ws" and wd = "?wd"
        and docs = "null_year_store ''projects''" and d = "project_of_year ''B'' PNone"]
      seed_run fetch mem null
    by (simp add: null_year_store_def)
qed

section \<open>Properties of the creation routes\<close>

lemma find_created_missing:
  assumes "ObjectId inserted_id w = Inr (i, wi)"
    and "find_one c (PObjectId i) wi = Inr (None, wl)"
  shows "find_created c inserted_id w = Inl TypeError"
proof -
  have "db wi = db w"
    using assms(1) by (cases inserted_id) (auto simp: new_oid_def split: sum.splits)
  moreover have "db wi \<noteq> None"
    using assms(2) by (auto simp: find_one_def split: option.splits)
  ultimately obtain s where "db w = Some s"
    by (cases "db w") auto
  then show ?thesis
    using assms by (simp add: find_created_def serialize_doc_opt_def)
qed

text \<open>
  Claim C6: when the insert succeeded and the lookup by the returned identifier finds no
  document, the creation route returns no record: it fails with the \<open>TypeError\<close> of
  \<open>serialize_doc(None)\<close>, which is answered as a server error (500) and not as a validation
  error (422). The same holds for both creation routes.
\<close>

theorem create_lookup_fails:
  fixes create_document :: create_document_fn
  shows "(create_document ''projects'' data w = Inr (inserted_id, wc)
          \<and> ObjectId inserted_id wc = Inr (i, wi)
          \<and> find_one ''projects'' (PObjectId i) wi = Inr (None, wl)
        \<longrightarrow> create_project create_document data w = Inl TypeError
            \<and> post_status (create_project create_document data w) = 500
            \<and> post_status (create_project create_document data w)
                \<noteq> post_status (Inl RequestValidationError :: error + doc \<times> world))
       \<and> (create_document ''contacts'' data w = Inr (inserted_id, wc)
          \<and> ObjectId inserted_id wc = Inr (i, wi)
          \<and> find_one ''contacts'' (PObjectId i) wi = Inr (None, wl)
        \<longrightarrow> submit_contact create_document data w = Inl TypeError
            \<and> post_status (submit_contact create_document data w) = 500
            \<and> post_status (submit_contact create_document data w)
                \<noteq> post_status (Inl RequestValidationError :: error + doc \<times> world))"
  using find_created_missing [of inserted_id wc i wi]
  by (auto simp: create_project_def submit_contact_def post_status_def)

theorem create_lookup_fails_witness:
  "lost_create ''projects'' ada example_world = Inr (PObjectId 7, example_world)
   \<and> lost_create ''contacts'' ada example_world = Inr (PObjectId 7, example_world)
   \<and> ObjectId (PObjectId 7) example_world = Inr (7, example_world)
   \<and> find_one ''projects'' (PObjectId 7) example_world
       = Inr (None, log_call (FindOne ''projects'') example_world)
   \<and> find_one ''contacts'' (PObjectId 7) example_world
       = Inr (None, log_call (FindOne ''contacts'') example_world)
   \<and> create_project lost_create ada example_world = Inl TypeError
   \<and> post_status (create_project lost_create ada example_world) = 500
   \<and> submit_contact lost_create ada example_world = Inl TypeError
   \<and> post_status (submit_contact lost_create ada example_world) = 500
   \<and> post_status (Inl RequestValidationError :: error + doc \<times> world) = 422"
  using create_lookup_fails
    [where create_document = lost_create and data = ada and w = example_world
       and inserted_id = "PObjectId 7" and wc = example_world and i = 7 and wi = example_world
       and wl = "log_call (FindOne ''projects'') example_world"]
    create_lookup_fails
    [where create_document = lost_create and data = ada and w = example_world
       and inserted_id = "PObjectId 7" and wc = example_world and i = 7 and wi = example_world
       and wl = "log_call (FindOne ''contacts'') example_world"]
  by (simp add: lost_create_def find_one_def example_world_simps post_status_def)


lemma find_appended:
  "\<forall>x\<in>set xs. \<not> P x \<Longrightarrow> P y \<Longrightarrow> find P (xs @ [y]) = Some y"
  by (induction xs) simp_all

lemma serialize_doc_strings:
  assumes "\<forall>k v. d k = Some v \<longrightarrow> k \<noteq> ''_id'' \<longrightarrow> (\<exists>t. v = PStr t) \<or>
             ((k = ''created_at'' \<or> k = ''updated_at'') \<and> (\<exists>t. v = PDatetime t))"
    and "d ''_id'' = Some (PObjectId i)"
    and "serialize_doc d k = Some v"
  shows "\<exists>t. v = PStr t"
proof -
  consider (native) "k = ''_id''" | (public) "k = ''id''"
    | (stamp) "k = ''created_at'' \<or> k = ''updated_at''"
    | (other) "k \<noteq> ''_id''" "k \<noteq> ''id''" "k \<noteq> ''created_at''" "k \<noteq> ''updated_at''"
    by blast
  then show ?thesis
  proof cases
    case native
    then show ?thesis using assms(2,3) by (simp add: serialize_doc_native_key)
  next
    case public
    then show ?thesis using assms(2,3) by (auto simp: serialize_doc_id_key)
  next
    case stamp
    then have iv: "iso_val (d k) = Some v"
      using assms(3) by (simp add: serialize_doc_timestamp_key)
    then obtain u where u: "d k = Some u"
      by (cases "d k") (auto simp: iso_val_def)
    have "k \<noteq> ''_id''" using stamp by auto
    then have "(\<exists>t. u = PStr t) \<or> (\<exists>t. u = PDatetime t)"
      using assms(1) u by blast
    then show ?thesis
      using iv u by (auto simp: iso_val_def)
  next
    case other
    then have "d k = Some v"
      using assms(3) by (simp add: serialize_doc_other_key)
    then show ?thesis
      using assms(1) other by blast
  qed
qed

text \<open>
  Claim C7: with a store whose contacts do not already carry the identifier issued next,
  creating the contact \<open>{name: "Ada", email: "ada@example.com", message: "hi"}\<close> returns a
  record with a non-empty string \<open>id\<close>, the three input fields unchanged, no \<open>_id\<close> key, and
  only string values (so no raw identifier and no raw timestamp).
\<close>

theorem submit_contact_ada:
  assumes "db w = Some s"
    and "\<forall>d\<in>set (s ''contacts''). d ''_id'' \<noteq> Some (PObjectId (oids w (oids_issued w)))"
  shows "\<exists>r w'. submit_contact create_document_spec ada w = Inr (r, w')
           \<and> (\<exists>i. r ''id'' = Some (PStr i) \<and> i \<noteq> [])
           \<and> r ''name'' = Some (PStr ''Ada'')
           \<and> r ''email'' = Some (PStr ''ada@example.com'')
           \<and> r ''message'' = Some (PStr ''hi'')
           \<and> r ''_id'' = None
           \<and> (\<forall>k v. r k = Some v \<longrightarrow> (\<exists>t. v = PStr t))"
proof -
  let ?i = "oids w (oids_issued w)"
  let ?t = "(clock w (clock_reads w))\<lparr>dt_utcoffset := Some 0\<rparr>"
  let ?d = "ada(''created_at'' \<mapsto> PDatetime ?t, ''updated_at'' \<mapsto> PDatetime ?t,
               ''_id'' \<mapsto> PObjectId ?i)"
  let ?wc = "log_call (InsertOne ''contacts'')
               (w\<lparr>clock_reads := Suc (clock_reads w), oids_issued := Suc (oids_issued w),
                   db := Some (s(''contacts'' := s ''contacts'' @ [?d]))\<rparr>)"
  let ?w' = "log_call (FindOne ''contacts'') ?wc"
  have created: "create_document_spec ''contacts'' ada w = Inr (PObjectId ?i, ?wc)"
    using assms(1) by (simp add: create_document_spec_def utcnow_def new_oid_def log_call_def)
  have "find (\<lambda>d. d ''_id'' = Some (PObjectId ?i)) (s ''contacts'' @ [?d]) = Some ?d"
    using assms(2) by (intro find_appended) simp_all
  then have found: "find_one ''contacts'' (PObjectId ?i) ?wc = Inr (Some ?d, ?w')"
    by (simp add: find_one_def log_call_def)
  have dbc: "db ?wc = Some (s(''contacts'' := s ''contacts'' @ [?d]))"
    by (simp add: log_call_def)
  have "find_created ''contacts'' (PObjectId ?i) ?wc = Inr (serialize_doc ?d, ?w')"
    using found dbc by (simp add: find_created_def serialize_doc_opt_def)
  then have run: "submit_contact create_document_spec ada w = Inr (serialize_doc ?d, ?w')"
    by (simp add: submit_contact_def created)
  have id: "serialize_doc ?d ''id'' = Some (PStr (str_oid ?i))"
    by (simp add: serialize_doc_id_key)
  have fields: "serialize_doc ?d ''name'' = Some (PStr ''Ada'')"
    "serialize_doc ?d ''email'' = Some (PStr ''ada@example.com'')"
    "serialize_doc ?d ''message'' = Some (PStr ''hi'')"
    by (simp_all add: serialize_doc_other_key ada_def)
  have native: "serialize_doc ?d ''_id'' = None"
    by (simp add: serialize_doc_native_key)
  have strings: "\<forall>k v. serialize_doc ?d k = Some v \<longrightarrow> (\<exists>t. v = PStr t)"
  proof (intro allI impI)
    fix k v assume "serialize_doc ?d k = Some v"
    then show "\<exists>t. v = PStr t"
      by (rule serialize_doc_strings [rotated 2]) (auto simp: ada_def split: if_splits)
  qed
  show ?thesis
    using run id str_oid_nonempty [of ?i] fields native strings by blast
qed


theorem submit_contact_ada_witness:
  "db contact_world = Some contact_store
   \<and> map (\<lambda>d. d ''_id'') (contact_store ''contacts'') = [Some (PObjectId 5)]
   \<and> oids contact_world (oids_issued contact_world) = 0
   \<and> (\<exists>r w'. submit_contact create_document_spec ada contact_world = Inr (r, w')
          \<and> (\<exists>i. r ''id'' = Some (PStr i) \<and> i \<noteq> [])
          \<and> r ''name'' = Some (PStr ''Ada'')
          \<and> r ''email'' = Some (PStr ''ada@example.com'')
          \<and> r ''message'' = Some (PStr ''hi'')
          \<and> r ''_id'' = None
          \<and> (\<forall>k v. r k = Some v \<longrightarrow> (\<exists>t. v = PStr t)))"
proof -
  have conn: "db contact_world = Some contact_store"
    by (simp add: contact_world_def)
  have fresh: "\<forall>d\<in>set (contact_store ''contacts'').
         d ''_id'' \<noteq> Some (PObjectId (oids contact_world (oids_issued contact_world)))"
    by (simp add: contact_world_def contact_store_def example_world_def)
  have stored: "map (\<lambda>d. d ''_id'') (contact_store ''contacts'') = [Some (PObjectId 5)]"
    by (simp add: contact_store_def)
  have next_id: "oids contact_world (oids_issued contact_world) = 0"
    by (simp add: contact_world_def example_world_def)
  show ?thesis
    using submit_contact_ada [of contact_world contact_store] conn fresh stored next_id
    by blast
qed

end
